theory Spec2Isabelle
  imports Main "HOL-Library.Word"
begin

section \<open>The values of the host language\<close>

text \<open>
  \<^verbatim>\<open>isThenable\<close> (src/src/index.ts, lines 41 to 57) takes a value of type
  \<^verbatim>\<open>unknown\<close>: any value of the language. The eight kinds of value are the
  constructors of \<open>jsval\<close>. A number is its binary64 bit pattern, so that NaN, the two
  infinities and the negative zero are values like every other number. An object is a
  reference into the heap.
\<close>

type_synonym addr = nat

datatype jsval =
    VUndefined
  | VNull
  | VBoolean bool
  | VNumber "64 word"
  | VString string
  | VSymbol nat
  | VBigInt int
  | VObject addr

definition NaN :: jsval where
  "NaN = VNumber 0x7FF8000000000000"

definition Infinity :: jsval where
  "Infinity = VNumber 0x7FF0000000000000"

definition NegInfinity :: jsval where
  "NegInfinity = VNumber 0xFFF0000000000000"

definition NegZero :: jsval where
  "NegZero = VNumber 0x8000000000000000"

text \<open>
  A property is a data property, which holds a value, or an accessor property, which
  holds an optional getter and an optional setter (references to function objects). Both
  carry their attributes. Tables are keyed by strings: the program reads one key, the
  string \<^verbatim>\<open>'then'\<close>, and a symbol-keyed property is never found by a string key.
\<close>

datatype property =
    DataProp (pvalue: jsval) (writable: bool) (enumerable: bool) (configurable: bool)
  | AccessorProp (getter: "addr option") (setter: "addr option")
      (enumerable: bool) (configurable: bool)

text \<open>
  An ordinary object has its own properties, a prototype (\<open>None\<close> is the null
  prototype), the flag that says whether it has a call behaviour (it is a function), and
  the primitive it boxes when it is a wrapper made by \<^verbatim>\<open>new Number(42)\<close>,
  \<^verbatim>\<open>new String('x')\<close>, \<^verbatim>\<open>new Boolean(true)\<close> or \<^verbatim>\<open>Object(sym)\<close>. Arrays, typed
  arrays and string wrappers differ from ordinary objects on integer keys and
  \<^verbatim>\<open>length\<close> only, so for the key \<^verbatim>\<open>then\<close> they are ordinary objects too.

  A proxy is callable when its target was, and it holds its target and handler until it
  is revoked; the revoked proxy holds \<open>None\<close>.
\<close>

datatype obj =
    Ordinary (properties: "string \<rightharpoonup> property") (prototype: "addr option")
      (callable: bool) (primitive_data: "jsval option")
  | Proxy (callable: bool) (target_handler: "(addr \<times> addr) option")

type_synonym heap = "addr \<rightharpoonup> obj"

text \<open>
  An operation of the language completes normally with a value, or abruptly with a
  thrown value. The engine's own \<^verbatim>\<open>TypeError\<close> is a tag, every other thrown value is
  the value that user code threw.
\<close>

datatype exn = TypeError | Thrown jsval

datatype 'a completion = Normal 'a | Throw exn

text \<open>
  The code that a property read can run is not part of this repository: the body of a
  getter, and the handler of a proxy with its traps and the invariants the engine
  checks on their results. It is a parameter of the model. \<open>call_fn host f this args h\<close>
  runs the function object \<open>f\<close> in the heap \<open>h\<close>; \<open>proxy_get host p key receiver h\<close> is
  the read of \<open>key\<close> on the proxy \<open>p\<close> that is not revoked. Both return a completion and
  the heap they leave, or \<open>None\<close> when they do not return. \<open>wrapper_proto host v\<close> is
  the prototype object of the wrapper that a read on the primitive \<open>v\<close> goes through.
\<close>

record host =
  call_fn :: "addr \<Rightarrow> jsval \<Rightarrow> jsval list \<Rightarrow> heap \<Rightarrow> (jsval completion \<times> heap) option"
  proxy_get :: "addr \<Rightarrow> string \<Rightarrow> jsval \<Rightarrow> heap \<Rightarrow> (jsval completion \<times> heap) option"
  wrapper_proto :: "jsval \<Rightarrow> addr"

section \<open>The operators the function uses\<close>

text \<open>
  \<^verbatim>\<open>typeof\<close>: the string the operator returns. It never throws, a revoked proxy
  included. A reference to no object does not occur in a running program; the model
  gives it the category of an object. (The objects of a browser's Annex B that answer
  \<^verbatim>\<open>'undefined'\<close> are outside the model.)
\<close>

fun typeof :: "heap \<Rightarrow> jsval \<Rightarrow> string" where
  "typeof h VUndefined = ''undefined''"
| "typeof h VNull = ''object''"
| "typeof h (VBoolean b) = ''boolean''"
| "typeof h (VNumber n) = ''number''"
| "typeof h (VString s) = ''string''"
| "typeof h (VSymbol s) = ''symbol''"
| "typeof h (VBigInt i) = ''bigint''"
| "typeof h (VObject a) =
     (case h a of
        None \<Rightarrow> ''object''
      | Some ob \<Rightarrow> if callable ob then ''function'' else ''object'')"

text \<open>
  Calling a function object: a value that is not callable gives a \<^verbatim>\<open>TypeError\<close>,
  a callable one runs the host's code.
\<close>

definition Call :: "host \<Rightarrow> heap \<Rightarrow> addr \<Rightarrow> jsval \<Rightarrow> jsval list \<Rightarrow> (jsval completion \<times> heap) option" where
  "Call host h f this args =
     (case h f of
        None \<Rightarrow> None
      | Some ob \<Rightarrow>
          if callable ob then call_fn host f this args h else Some (Throw TypeError, h))"

text \<open>
  The read of a property of an object, with the receiver that a getter is called on.
  A revoked proxy throws a \<^verbatim>\<open>TypeError\<close>, a live one runs the host's code. An
  ordinary object answers from its own property when it has one: the value of a data
  property, the result of the getter of an accessor property (\<^verbatim>\<open>undefined\<close> when it
  has no getter). Otherwise the read goes on in the prototype, and ends with
  \<^verbatim>\<open>undefined\<close> at the null prototype. \<open>None\<close> is a read that does not return
  (a reference to no object, which a running program does not hold, has no read either).
\<close>

partial_function (option) Get ::
  "host \<Rightarrow> heap \<Rightarrow> addr \<Rightarrow> string \<Rightarrow> jsval \<Rightarrow> (jsval completion \<times> heap) option" where
  "Get host h a key receiver =
     (case h a of
        None \<Rightarrow> None
      | Some (Proxy c th) \<Rightarrow>
          (case th of
             None \<Rightarrow> Some (Throw TypeError, h)
           | Some _ \<Rightarrow> proxy_get host a key receiver h)
      | Some (Ordinary ps pr c pd) \<Rightarrow>
          (case ps key of
             None \<Rightarrow>
               (case pr of
                  None \<Rightarrow> Some (Normal VUndefined, h)
                | Some parent \<Rightarrow> Get host h parent key receiver)
           | Some (DataProp v w e c') \<Rightarrow> Some (Normal v, h)
           | Some (AccessorProp g s e c') \<Rightarrow>
               (case g of
                  None \<Rightarrow> Some (Normal VUndefined, h)
                | Some f \<Rightarrow> Call host h f receiver [])))"

declare Get.simps [code]

text \<open>
  The member access \<^verbatim>\<open>value['then']\<close> on any value: \<^verbatim>\<open>null\<close> and
  \<^verbatim>\<open>undefined\<close> have no properties and the access throws a \<^verbatim>\<open>TypeError\<close>; an
  object is read; every other primitive is read through the prototype of its wrapper,
  with the primitive as receiver (the own properties of a string wrapper, its indices
  and \<^verbatim>\<open>length\<close>, are keys this program does not read).
\<close>

fun GetV :: "host \<Rightarrow> heap \<Rightarrow> jsval \<Rightarrow> string \<Rightarrow> (jsval completion \<times> heap) option" where
  "GetV host h VUndefined key = Some (Throw TypeError, h)"
| "GetV host h VNull key = Some (Throw TypeError, h)"
| "GetV host h (VObject a) key = Get host h a key (VObject a)"
| "GetV host h v key = Get host h (wrapper_proto host v) key v"

section \<open>isThenable\<close>

text \<open>
  What the function does is recorded beside what it returns: the heap it leaves, and
  the list of the property reads that its own code made, in order.
\<close>

datatype event = PropertyRead jsval string

type_synonym outcome = "bool completion \<times> heap \<times> event list"

text \<open>
  Line 51, the body of the \<^verbatim>\<open>try\<close> block:
  \<^verbatim>\<open>return typeof (value as Record<string, unknown>)['then'] === 'function';\<close>
  One read of \<^verbatim>\<open>then\<close>; when it throws, so does the block, and when it returns a
  member, the block returns whether \<^verbatim>\<open>typeof\<close> of the member, taken in the heap
  that the read left, is \<^verbatim>\<open>'function'\<close>.
\<close>

definition try_block :: "host \<Rightarrow> heap \<Rightarrow> jsval \<Rightarrow> outcome option" where
  "try_block host h v =
     (case GetV host h v ''then'' of
        None \<Rightarrow> None
      | Some (Normal m, h') \<Rightarrow>
          Some (Normal (typeof h' m = ''function''), h', [PropertyRead v ''then''])
      | Some (Throw e, h') \<Rightarrow> Some (Throw e, h', [PropertyRead v ''then'']))"

text \<open>
  Lines 41 to 57. The two guards return \<^verbatim>\<open>false\<close> before any read; the
  \<^verbatim>\<open>catch\<close> clause (lines 52 to 56) turns every throw of the block into the return
  of \<^verbatim>\<open>false\<close>.
\<close>

definition isThenable :: "host \<Rightarrow> heap \<Rightarrow> jsval \<Rightarrow> outcome option" where
  "isThenable host h v =
     (if v = VNull \<or> v = VUndefined then Some (Normal False, h, [])
      else if typeof h v \<noteq> ''object'' \<and> typeof h v \<noteq> ''function''
        then Some (Normal False, h, [])
      else
        (case try_block host h v of
           None \<Rightarrow> None
         | Some (Normal b, h', t) \<Rightarrow> Some (Normal b, h', t)
         | Some (Throw e, h', t) \<Rightarrow> Some (Normal False, h', t)))"

text \<open>Line 59: \<^verbatim>\<open>export default isThenable;\<close>\<close>

definition default_export :: "host \<Rightarrow> heap \<Rightarrow> jsval \<Rightarrow> outcome option" where
  "default_export = isThenable"

text \<open>
  The property that the object \<open>a\<close> has under \<open>key\<close>, its own or inherited:
  \<open>carries h a key p\<close> holds when the first object with an own property \<open>key\<close>,
  going from \<open>a\<close> up the prototypes of ordinary objects, has the property \<open>p\<close>
  there. It is the lookup of \<open>Get\<close> as a relation, without the read of the value.
\<close>

inductive carries :: "heap \<Rightarrow> addr \<Rightarrow> string \<Rightarrow> property \<Rightarrow> bool" where
  own: "h a = Some (Ordinary ps pr c pd) \<Longrightarrow> ps key = Some p \<Longrightarrow> carries h a key p"
| inherited: "h a = Some (Ordinary ps pr c pd) \<Longrightarrow> ps key = None \<Longrightarrow> pr = Some parent
     \<Longrightarrow> carries h parent key p \<Longrightarrow> carries h a key p"

code_pred carries .

section \<open>Objects of the test suite\<close>

text \<open>
  The heaps below are objects that src/tests/index.test.ts builds, with the host code
  their getters need. Addresses are small numbers. \<open>fn_obj\<close> is a function such as
  \<^verbatim>\<open>() => {}\<close>; \<open>forty_two\<close> is the number 42.
\<close>

definition fn_obj :: obj where
  "fn_obj = Ordinary Map.empty None True None"

definition forty_two :: jsval where
  "forty_two = VNumber 0x4045000000000000"

text \<open>A host whose code never returns: what holds under it needs no host code.\<close>

definition silent_host :: host where
  "silent_host =
     \<lparr>call_fn = (\<lambda>f this args h. None),
      proxy_get = (\<lambda>p key receiver h. None),
      wrapper_proto = (\<lambda>v. 0)\<rparr>"

text \<open>
  \<^verbatim>\<open>Object.create({ then: () => {} })\<close>: object 1 has no property of its own and
  the prototype 2, which holds the function 3 as \<^verbatim>\<open>then\<close>.
\<close>

definition inherited_heap :: heap where
  "inherited_heap =
     [1 \<mapsto> Ordinary Map.empty (Some 2) False None,
      2 \<mapsto> Ordinary [''then'' \<mapsto> DataProp (VObject 3) True True True] None False None,
      3 \<mapsto> fn_obj]"

text \<open>\<^verbatim>\<open>{ then: () => {} }\<close>: object 1 holds the function 2 as its own \<^verbatim>\<open>then\<close>.\<close>

definition own_heap :: heap where
  "own_heap =
     [1 \<mapsto> Ordinary [''then'' \<mapsto> DataProp (VObject 2) True True True] None False None,
      2 \<mapsto> fn_obj]"

text \<open>\<^verbatim>\<open>{ then: 'not a function' }\<close>\<close>

definition string_then_heap :: heap where
  "string_then_heap =
     [1 \<mapsto> Ordinary [''then'' \<mapsto> DataProp (VString ''not a function'') True True True]
            None False None]"

text \<open>
  \<^verbatim>\<open>Object.defineProperty({}, 'then', { get() { throw new Error(...) }, configurable: true })\<close>:
  the getter is the function 2, and running it allocates the error object 3 and throws it.
\<close>

definition getter_heap :: heap where
  "getter_heap =
     [1 \<mapsto> Ordinary [''then'' \<mapsto> AccessorProp (Some 2) None False True] None False None,
      2 \<mapsto> fn_obj]"

definition error_obj :: obj where
  "error_obj =
     Ordinary [''message'' \<mapsto> DataProp (VString ''getter throws'') True False True]
       None False None"

definition throwing_host :: host where
  "throwing_host =
     \<lparr>call_fn = (\<lambda>f this args h.
        if f = 2 then Some (Throw (Thrown (VObject 3)), h(3 \<mapsto> error_obj)) else None),
      proxy_get = (\<lambda>p key receiver h. None),
      wrapper_proto = (\<lambda>v. 0)\<rparr>"

text \<open>\<^verbatim>\<open>Proxy.revocable({}, {})\<close> after \<^verbatim>\<open>revoke()\<close>.\<close>

definition revoked_heap :: heap where
  "revoked_heap = [1 \<mapsto> Proxy False None]"

text \<open>
  \<^verbatim>\<open>get then() { callCount++; return callCount === 1 ? () => {} : 'not a function'; }\<close>
  on \<open>getter_heap\<close>: the first run of the getter allocates the function 3 and returns
  it, and every later run, which finds 3 allocated, returns the string.
\<close>

definition changing_host :: host where
  "changing_host =
     \<lparr>call_fn = (\<lambda>f this args h.
        if f = 2 then
          (case h 3 of
             None \<Rightarrow> Some (Normal (VObject 3), h(3 \<mapsto> fn_obj))
           | Some ob \<Rightarrow> Some (Normal (VString ''not a function''), h))
        else None),
      proxy_get = (\<lambda>p key receiver h. None),
      wrapper_proto = (\<lambda>v. 0)\<rparr>"

text \<open>
  \<^verbatim>\<open>get then() { return () => {}; }\<close> on \<open>getter_heap\<close>: every run of the getter
  allocates a new function, at 3 the first time and at 4 after that.
\<close>

definition fresh_host :: host where
  "fresh_host =
     \<lparr>call_fn = (\<lambda>f this args h.
        if f = 2 then
          (case h 3 of
             None \<Rightarrow> Some (Normal (VObject 3), h(3 \<mapsto> fn_obj))
           | Some ob \<Rightarrow> Some (Normal (VObject 4), h(4 \<mapsto> fn_obj)))
        else None),
      proxy_get = (\<lambda>p key receiver h. None),
      wrapper_proto = (\<lambda>v. 0)\<rparr>"

text \<open>
  A host under which every function, when called, deletes all the properties of its
  receiver: calling the \<^verbatim>\<open>then\<close> of \<open>own_heap\<close> would empty the object 1.
\<close>

definition emptying_host :: host where
  "emptying_host =
     \<lparr>call_fn = (\<lambda>f this args h.
        case this of
          VObject a \<Rightarrow> Some (Normal VUndefined, h(a \<mapsto> Ordinary Map.empty None False None))
        | _ \<Rightarrow> Some (Normal VUndefined, h)),
      proxy_get = (\<lambda>p key receiver h. None),
      wrapper_proto = (\<lambda>v. 0)\<rparr>"

text \<open>
  \<^verbatim>\<open>Object.assign(new Number(42), { then() {} })\<close>: the wrapper 1 of the number 42
  holds the function 2 as its own \<^verbatim>\<open>then\<close>.
\<close>

definition boxed_heap :: heap where
  "boxed_heap =
     [1 \<mapsto> Ordinary [''then'' \<mapsto> DataProp (VObject 2) True True True] None False
            (Some forty_two),
      2 \<mapsto> fn_obj]"

section \<open>Properties\<close>

subsection \<open>The two guards and the read\<close>

text \<open>The values that pass both guards are the references to objects.\<close>

lemma typeof_object_like:
  "(typeof h v = ''object'' \<or> typeof h v = ''function'') \<longleftrightarrow> (v = VNull \<or> (\<exists>a. v = VObject a))"
  by (cases v) (auto split: option.splits)

lemma typeof_VObject:
  "typeof h (VObject a) = ''object'' \<or> typeof h (VObject a) = ''function''"
  by (simp split: option.splits)

lemma passes_guards:
  assumes "typeof h v = ''object'' \<or> typeof h v = ''function''" and "v \<noteq> VNull"
  obtains a where "v = VObject a"
  using assms by (auto simp: typeof_object_like)

text \<open>On an object the function is one read, classified.\<close>

lemma isThenable_VObject:
  "isThenable host h (VObject a) =
     (case Get host h a ''then'' (VObject a) of
        None \<Rightarrow> None
      | Some (c, h') \<Rightarrow>
          Some (Normal (case c of Normal m \<Rightarrow> typeof h' m = ''function'' | Throw e \<Rightarrow> False),
                h', [PropertyRead (VObject a) ''then'']))"
  using typeof_VObject [of h a]
  by (auto simp: isThenable_def try_block_def split: option.splits completion.splits)

lemma isThenable_not_object:
  assumes "\<And>a. v \<noteq> VObject a"
  shows "isThenable host h v = Some (Normal False, h, [])"
  using assms by (cases v) (auto simp: isThenable_def)

subsection \<open>The read along the prototype chain\<close>

lemma Get_own_data:
  assumes "h a = Some (Ordinary ps pr c pd)" and "ps key = Some (DataProp m w e c')"
  shows "Get host h a key r = Some (Normal m, h)"
  using assms by (subst Get.simps) simp

lemma Get_own_getter:
  assumes "h a = Some (Ordinary ps pr c pd)" and "ps key = Some (AccessorProp (Some f) s e c')"
  shows "Get host h a key r = Call host h f r []"
  using assms by (subst Get.simps) simp

lemma Get_inherited:
  assumes "h a = Some (Ordinary ps pr c pd)" and "ps key = None" and "pr = Some parent"
  shows "Get host h a key r = Get host h parent key r"
  using assms by (subst Get.simps) simp

lemma Get_revoked:
  assumes "h a = Some (Proxy c None)"
  shows "Get host h a key r = Some (Throw TypeError, h)"
  using assms by (subst Get.simps) simp

lemma Get_carries_data:
  assumes "carries h a key p" and "p = DataProp m w e c"
  shows "Get host h a key r = Some (Normal m, h)"
  using assms
proof (induction rule: carries.induct)
  case (own h a ps pr c pd key p)
  then show ?case by (simp add: Get_own_data)
next
  case (inherited h a ps pr c pd key parent p)
  then show ?case by (simp add: Get_inherited)
qed

lemma Get_carries_getter:
  assumes "carries h a key p" and "p = AccessorProp (Some f) s e c"
  shows "Get host h a key r = Call host h f r []"
  using assms
proof (induction rule: carries.induct)
  case (own h a ps pr c pd key p)
  then show ?case by (simp add: Get_own_getter)
next
  case (inherited h a ps pr c pd key parent p)
  then show ?case by (simp add: Get_inherited)
qed

text \<open>
  A member that is a data property anywhere on the chain of ordinary objects is found,
  however long the chain, and no host code runs: when it is a function, the answer is
  \<^verbatim>\<open>true\<close> and the heap is untouched.
\<close>

lemma isThenable_carries_function:
  assumes "carries h a ''then'' (DataProp m w e c)" and "typeof h m = ''function''"
  shows "isThenable host h (VObject a) = Some (Normal True, h, [PropertyRead (VObject a) ''then''])"
  using assms by (simp add: isThenable_VObject Get_carries_data)

text \<open>
  The read changes the heap through host code only: the heap it leaves is the one it
  started in, or the one that one run of a getter, or one read on a live proxy, left.
\<close>

lemma Get_frame:
  "Get host h a key r = Some y \<Longrightarrow>
     snd y = h \<or> (\<exists>f. call_fn host f r [] h = Some y) \<or> (\<exists>p. proxy_get host p key r h = Some y)"
proof (induction rule: Get.raw_induct [rotated 1, consumes 1])
  case (1 Get host h a key receiver y)
  then show ?case
    by (auto simp: Call_def split: option.splits obj.splits property.splits if_splits)
qed

subsection \<open>What isThenable returns\<close>

text \<open>
  C4. For \<^verbatim>\<open>null\<close> and for \<^verbatim>\<open>undefined\<close> the function returns \<^verbatim>\<open>false\<close> at
  once: whatever the heap and the host's code, the call returns, the heap is the one it
  started in, and no property was read.
\<close>

theorem isThenable_null_undefined:
  "isThenable host h VNull = Some (Normal False, h, [])
   \<and> isThenable host h VUndefined = Some (Normal False, h, [])"
  by (simp add: isThenable_def)

text \<open>
  C5. For every primitive (boolean, number, string, symbol, bigint; NaN, the infinities
  and the negative zero are numbers) the function returns \<^verbatim>\<open>false\<close>, leaves the heap
  as it was and reads no property.
\<close>

theorem isThenable_primitive:
  "isThenable host h (VBoolean b) = Some (Normal False, h, [])
   \<and> isThenable host h (VNumber n) = Some (Normal False, h, [])
   \<and> isThenable host h (VString s) = Some (Normal False, h, [])
   \<and> isThenable host h (VSymbol y) = Some (Normal False, h, [])
   \<and> isThenable host h (VBigInt i) = Some (Normal False, h, [])
   \<and> isThenable host h NaN = Some (Normal False, h, [])
   \<and> isThenable host h Infinity = Some (Normal False, h, [])
   \<and> isThenable host h NegInfinity = Some (Normal False, h, [])
   \<and> isThenable host h NegZero = Some (Normal False, h, [])"
  by (simp add: isThenable_def NaN_def Infinity_def NegInfinity_def NegZero_def)

text \<open>
  C1. When the value is object-like or callable (\<^verbatim>\<open>typeof\<close> says \<^verbatim>\<open>'object'\<close> or
  \<^verbatim>\<open>'function'\<close>) and the read of \<^verbatim>\<open>then\<close> on it returns a member whose
  \<^verbatim>\<open>typeof\<close> is \<^verbatim>\<open>'function'\<close>, the function returns \<^verbatim>\<open>true\<close>. The read is
  \<open>GetV\<close>, which finds the member on the value or on its prototype chain.
\<close>

theorem isThenable_callable_then:
  assumes "typeof h v = ''object'' \<or> typeof h v = ''function''"
    and "GetV host h v ''then'' = Some (Normal m, h')"
    and "typeof h' m = ''function''"
  shows "isThenable host h v = Some (Normal True, h', [PropertyRead v ''then''])"
proof -
  from assms(2) have "v \<noteq> VNull" by auto
  with assms(1) obtain a where "v = VObject a" by (rule passes_guards)
  with assms(2,3) show ?thesis by (simp add: isThenable_VObject)
qed

text \<open>
  The inherited \<^verbatim>\<open>then\<close> of the test suite, and the own one: \<^verbatim>\<open>true\<close> for both.
\<close>

theorem isThenable_callable_then_witness:
  "isThenable silent_host inherited_heap (VObject 1)
     = Some (Normal True, inherited_heap, [PropertyRead (VObject 1) ''then''])
   \<and> isThenable silent_host own_heap (VObject 1)
     = Some (Normal True, own_heap, [PropertyRead (VObject 1) ''then''])"
proof
  have cat: "typeof inherited_heap (VObject 1) = ''object'' \<or> typeof inherited_heap (VObject 1) = ''function''"
    by (simp add: inherited_heap_def)
  have read: "GetV silent_host inherited_heap (VObject 1) ''then'' = Some (Normal (VObject 3), inherited_heap)"
    by (simp add: Get.simps inherited_heap_def)
  have fn: "typeof inherited_heap (VObject 3) = ''function''"
    by (simp add: inherited_heap_def fn_obj_def)
  show "isThenable silent_host inherited_heap (VObject 1)
     = Some (Normal True, inherited_heap, [PropertyRead (VObject 1) ''then''])"
    by (rule isThenable_callable_then [OF cat read fn])
next
  have cat: "typeof own_heap (VObject 1) = ''object'' \<or> typeof own_heap (VObject 1) = ''function''"
    by (simp add: own_heap_def)
  have read: "GetV silent_host own_heap (VObject 1) ''then'' = Some (Normal (VObject 2), own_heap)"
    by (simp add: Get.simps own_heap_def)
  have fn: "typeof own_heap (VObject 2) = ''function''"
    by (simp add: own_heap_def fn_obj_def)
  show "isThenable silent_host own_heap (VObject 1)
     = Some (Normal True, own_heap, [PropertyRead (VObject 1) ''then''])"
    by (rule isThenable_callable_then [OF cat read fn])
qed

text \<open>A member of these kinds is not callable, in every heap.\<close>

lemma typeof_not_function:
  "typeof h VNull \<noteq> ''function''" "typeof h VUndefined \<noteq> ''function''"
  "typeof h (VString s) \<noteq> ''function''" "typeof h (VNumber n) \<noteq> ''function''"
  "typeof h (VBoolean b) \<noteq> ''function''" "typeof h (VSymbol y) \<noteq> ''function''"
  "typeof h (VBigInt i) \<noteq> ''function''"
  "h a = Some (Ordinary ps pr False pd) \<Longrightarrow> typeof h (VObject a) \<noteq> ''function''"
  by simp_all

text \<open>
  C3. When the value is object-like or callable and the read of \<^verbatim>\<open>then\<close> returns a
  member whose \<^verbatim>\<open>typeof\<close> is not \<^verbatim>\<open>'function'\<close> (a string, a number,
  \<^verbatim>\<open>null\<close>, \<^verbatim>\<open>undefined\<close>, an object that is not callable), the function returns
  \<^verbatim>\<open>false\<close>.
\<close>

theorem isThenable_noncallable_then:
  assumes "typeof h v = ''object'' \<or> typeof h v = ''function''"
    and "GetV host h v ''then'' = Some (Normal m, h')"
    and "typeof h' m \<noteq> ''function''"
  shows "isThenable host h v = Some (Normal False, h', [PropertyRead v ''then''])"
proof -
  from assms(2) have "v \<noteq> VNull" by auto
  with assms(1) obtain a where "v = VObject a" by (rule passes_guards)
  with assms(2,3) show ?thesis by (simp add: isThenable_VObject)
qed

text \<open>\<^verbatim>\<open>isThenable({ then: 'not a function' })\<close> is \<^verbatim>\<open>false\<close>.\<close>

theorem isThenable_noncallable_then_witness:
  "isThenable silent_host string_then_heap (VObject 1)
     = Some (Normal False, string_then_heap, [PropertyRead (VObject 1) ''then''])"
proof -
  have cat: "typeof string_then_heap (VObject 1) = ''object''
      \<or> typeof string_then_heap (VObject 1) = ''function''"
    by (simp add: string_then_heap_def)
  have read: "GetV silent_host string_then_heap (VObject 1) ''then''
      = Some (Normal (VString ''not a function''), string_then_heap)"
    by (simp add: Get.simps string_then_heap_def)
  have member: "typeof string_then_heap (VString ''not a function'') \<noteq> ''function''"
    by simp
  show ?thesis
    by (rule isThenable_noncallable_then [OF cat read member])
qed

text \<open>
  C2. The function never throws: no call ends in a thrown value. When the read of
  \<^verbatim>\<open>then\<close> throws, whatever is thrown, the call returns \<^verbatim>\<open>false\<close>. And the call
  returns whenever the read returns, so the only call that does not return a boolean
  is one whose read never returns.
\<close>

theorem isThenable_never_throws:
  "isThenable host h v \<noteq> Some (Throw e, h', t)
   \<and> (GetV host h v ''then'' = Some (Throw e, h')
        \<longrightarrow> (\<exists>h2 t2. isThenable host h v = Some (Normal False, h2, t2)))
   \<and> (isThenable host h v = None \<longrightarrow> GetV host h v ''then'' = None)"
proof (cases "\<exists>a. v = VObject a")
  case True
  then obtain a where "v = VObject a" ..
  then show ?thesis
    by (auto simp: isThenable_VObject split: option.splits)
next
  case False
  then have "isThenable host h v = Some (Normal False, h, [])"
    by (simp add: isThenable_not_object)
  then show ?thesis by simp
qed

text \<open>
  The getter that throws an error object and the revoked proxy both give \<^verbatim>\<open>false\<close>;
  under the host whose getter never returns, neither the read nor the call returns.
\<close>

theorem isThenable_never_throws_witness:
  "GetV throwing_host getter_heap (VObject 1) ''then''
     = Some (Throw (Thrown (VObject 3)), getter_heap(3 \<mapsto> error_obj))
   \<and> (\<exists>h2 t2. isThenable throwing_host getter_heap (VObject 1) = Some (Normal False, h2, t2))
   \<and> GetV silent_host revoked_heap (VObject 1) ''then'' = Some (Throw TypeError, revoked_heap)
   \<and> (\<exists>h2 t2. isThenable silent_host revoked_heap (VObject 1) = Some (Normal False, h2, t2))
   \<and> isThenable silent_host getter_heap (VObject 1) = None
   \<and> GetV silent_host getter_heap (VObject 1) ''then'' = None"
proof -
  have thrown: "GetV throwing_host getter_heap (VObject 1) ''then''
      = Some (Throw (Thrown (VObject 3)), getter_heap(3 \<mapsto> error_obj))"
    by (simp add: Get.simps Call_def getter_heap_def fn_obj_def throwing_host_def)
  have revoked: "GetV silent_host revoked_heap (VObject 1) ''then''
      = Some (Throw TypeError, revoked_heap)"
    by (simp add: Get.simps revoked_heap_def)
  have stuck: "isThenable silent_host getter_heap (VObject 1) = None"
    by (simp add: isThenable_def try_block_def Get.simps Call_def getter_heap_def fn_obj_def
        silent_host_def)
  from thrown
    isThenable_never_throws [of throwing_host getter_heap "VObject 1" "Thrown (VObject 3)"
      "getter_heap(3 \<mapsto> error_obj)" "[]"]
  have a: "\<exists>h2 t2. isThenable throwing_host getter_heap (VObject 1) = Some (Normal False, h2, t2)"
    by blast
  from revoked
    isThenable_never_throws [of silent_host revoked_heap "VObject 1" TypeError revoked_heap "[]"]
  have b: "\<exists>h2 t2. isThenable silent_host revoked_heap (VObject 1) = Some (Normal False, h2, t2)"
    by blast
  from stuck
    isThenable_never_throws [of silent_host getter_heap "VObject 1" TypeError getter_heap "[]"]
  have c: "GetV silent_host getter_heap (VObject 1) ''then'' = None"
    by blast
  from thrown a revoked b stuck c show ?thesis by blast
qed

text \<open>
  C6. On an object-like or callable value one call makes exactly one read of
  \<^verbatim>\<open>then\<close>: the list of its reads has that one entry, the heap it leaves is the
  heap that this one read left, and its result is the category of what this one read
  returned, whatever a second read would return.
\<close>

theorem isThenable_single_read:
  assumes "typeof h v = ''object'' \<or> typeof h v = ''function''" and "v \<noteq> VNull"
  shows "isThenable host h v =
     (case GetV host h v ''then'' of
        None \<Rightarrow> None
      | Some (c, h') \<Rightarrow>
          Some (Normal (case c of Normal m \<Rightarrow> typeof h' m = ''function'' | Throw e \<Rightarrow> False),
                h', [PropertyRead v ''then'']))"
proof -
  from assms obtain a where v: "v = VObject a" by (rule passes_guards)
  show ?thesis unfolding v by (simp add: isThenable_VObject)
qed

text \<open>
  The getter that returns a function on its first run only: the call returns
  \<^verbatim>\<open>true\<close> from the first observation, although the read that would follow returns
  a string.
\<close>

theorem isThenable_single_read_witness:
  "isThenable changing_host getter_heap (VObject 1)
     = Some (Normal True, getter_heap(3 \<mapsto> fn_obj), [PropertyRead (VObject 1) ''then''])
   \<and> GetV changing_host (getter_heap(3 \<mapsto> fn_obj)) (VObject 1) ''then''
     = Some (Normal (VString ''not a function''), getter_heap(3 \<mapsto> fn_obj))"
proof
  have cat: "typeof getter_heap (VObject 1) = ''object''
      \<or> typeof getter_heap (VObject 1) = ''function''"
    by (simp add: getter_heap_def)
  have obj: "VObject 1 \<noteq> VNull" by simp
  have read: "GetV changing_host getter_heap (VObject 1) ''then''
      = Some (Normal (VObject 3), getter_heap(3 \<mapsto> fn_obj))"
    by (simp add: Get.simps Call_def getter_heap_def fn_obj_def changing_host_def)
  have fn: "typeof (getter_heap(3 \<mapsto> fn_obj)) (VObject 3) = ''function''"
    by (simp add: fn_obj_def)
  show "isThenable changing_host getter_heap (VObject 1)
     = Some (Normal True, getter_heap(3 \<mapsto> fn_obj), [PropertyRead (VObject 1) ''then''])"
    using isThenable_single_read [OF cat obj, of changing_host] read fn by simp
next
  show "GetV changing_host (getter_heap(3 \<mapsto> fn_obj)) (VObject 1) ''then''
     = Some (Normal (VString ''not a function''), getter_heap(3 \<mapsto> fn_obj))"
    by (simp add: Get.simps Call_def getter_heap_def fn_obj_def changing_host_def)
qed

text \<open>
  C7. Two calls in a row on the same value, the second in the heap that the first left,
  return the same boolean when the read of \<^verbatim>\<open>then\<close> behaves the same way in both:
  it throws in both, or it returns in both a member of the same \<^verbatim>\<open>typeof\<close>.
\<close>

theorem isThenable_twice:
  assumes "isThenable host h v = Some (r1, h1, t1)"
    and "isThenable host h1 v = Some (r2, h2, t2)"
    and "\<forall>e g. GetV host h v ''then'' = Some (Throw e, g)
           \<longrightarrow> (\<exists>e' g'. GetV host h1 v ''then'' = Some (Throw e', g'))"
    and "\<forall>m g. GetV host h v ''then'' = Some (Normal m, g)
           \<longrightarrow> (\<exists>m' g'. GetV host h1 v ''then'' = Some (Normal m', g') \<and> typeof g' m' = typeof g m)"
  shows "r2 = r1"
proof (cases "\<exists>a. v = VObject a")
  case True
  then obtain a where v: "v = VObject a" ..
  from assms(1) v obtain c where first: "Get host h a ''then'' (VObject a) = Some (c, h1)"
    and r1: "r1 = Normal (case c of Normal m \<Rightarrow> typeof h1 m = ''function'' | Throw e \<Rightarrow> False)"
    by (auto simp: isThenable_VObject split: option.splits)
  from assms(2) v obtain c' where second: "Get host h1 a ''then'' (VObject a) = Some (c', h2)"
    and r2: "r2 = Normal (case c' of Normal m \<Rightarrow> typeof h2 m = ''function'' | Throw e \<Rightarrow> False)"
    by (auto simp: isThenable_VObject split: option.splits)
  show ?thesis
  proof (cases c)
    case (Normal m)
    with assms(4) v first second obtain m' where "c' = Normal m'" and "typeof h2 m' = typeof h1 m"
      by auto
    with Normal r1 r2 show ?thesis by simp
  next
    case (Throw e)
    with assms(3) v first second obtain e' where "c' = Throw e'"
      by auto
    with Throw r1 r2 show ?thesis by simp
  qed
next
  case False
  then have "isThenable host h v = Some (Normal False, h, [])"
    and "isThenable host h1 v = Some (Normal False, h1, [])"
    by (simp_all add: isThenable_not_object)
  with assms(1,2) show ?thesis by simp
qed

text \<open>
  The getter that returns a new function on every run: the two calls see different
  members in different heaps, and both return \<^verbatim>\<open>true\<close>. The getter that throws
  on every run: both calls return \<^verbatim>\<open>false\<close>.
\<close>

theorem isThenable_twice_witness:
  "isThenable fresh_host getter_heap (VObject 1)
     = Some (Normal True, getter_heap(3 \<mapsto> fn_obj), [PropertyRead (VObject 1) ''then''])
   \<and> isThenable fresh_host (getter_heap(3 \<mapsto> fn_obj)) (VObject 1)
     = Some (Normal True, getter_heap(3 \<mapsto> fn_obj, 4 \<mapsto> fn_obj), [PropertyRead (VObject 1) ''then''])
   \<and> isThenable throwing_host getter_heap (VObject 1)
     = Some (Normal False, getter_heap(3 \<mapsto> error_obj), [PropertyRead (VObject 1) ''then''])
   \<and> isThenable throwing_host (getter_heap(3 \<mapsto> error_obj)) (VObject 1)
     = Some (Normal False, getter_heap(3 \<mapsto> error_obj), [PropertyRead (VObject 1) ''then''])"
proof -
  have read1: "GetV fresh_host getter_heap (VObject 1) ''then''
      = Some (Normal (VObject 3), getter_heap(3 \<mapsto> fn_obj))"
    by (simp add: Get.simps Call_def getter_heap_def fn_obj_def fresh_host_def)
  have read2: "GetV fresh_host (getter_heap(3 \<mapsto> fn_obj)) (VObject 1) ''then''
      = Some (Normal (VObject 4), getter_heap(3 \<mapsto> fn_obj, 4 \<mapsto> fn_obj))"
    by (simp add: Get.simps Call_def getter_heap_def fn_obj_def fresh_host_def)
  have first: "isThenable fresh_host getter_heap (VObject 1)
      = Some (Normal True, getter_heap(3 \<mapsto> fn_obj), [PropertyRead (VObject 1) ''then''])"
    using read1 by (simp add: isThenable_VObject fn_obj_def)
  have second: "isThenable fresh_host (getter_heap(3 \<mapsto> fn_obj)) (VObject 1)
      = Some (Normal True, getter_heap(3 \<mapsto> fn_obj, 4 \<mapsto> fn_obj), [PropertyRead (VObject 1) ''then''])"
    using read2 by (simp add: isThenable_VObject fn_obj_def)
  have throws: "\<forall>e g. GetV fresh_host getter_heap (VObject 1) ''then'' = Some (Throw e, g)
      \<longrightarrow> (\<exists>e' g'. GetV fresh_host (getter_heap(3 \<mapsto> fn_obj)) (VObject 1) ''then''
            = Some (Throw e', g'))"
    using read1 by simp
  have returns: "\<forall>m g. GetV fresh_host getter_heap (VObject 1) ''then'' = Some (Normal m, g)
      \<longrightarrow> (\<exists>m' g'. GetV fresh_host (getter_heap(3 \<mapsto> fn_obj)) (VObject 1) ''then''
            = Some (Normal m', g') \<and> typeof g' m' = typeof g m)"
    using read1 read2 by (simp add: fn_obj_def)
  have same: "Normal True = (Normal True :: bool completion)"
    by (rule isThenable_twice [OF first second throws returns])
  have thrown1: "GetV throwing_host getter_heap (VObject 1) ''then''
      = Some (Throw (Thrown (VObject 3)), getter_heap(3 \<mapsto> error_obj))"
    by (simp add: Get.simps Call_def getter_heap_def fn_obj_def throwing_host_def)
  have thrown2: "GetV throwing_host (getter_heap(3 \<mapsto> error_obj)) (VObject 1) ''then''
      = Some (Throw (Thrown (VObject 3)), getter_heap(3 \<mapsto> error_obj))"
    by (simp add: Get.simps Call_def getter_heap_def fn_obj_def throwing_host_def)
  have first': "isThenable throwing_host getter_heap (VObject 1)
      = Some (Normal False, getter_heap(3 \<mapsto> error_obj), [PropertyRead (VObject 1) ''then''])"
    using thrown1 by (simp add: isThenable_VObject)
  have second': "isThenable throwing_host (getter_heap(3 \<mapsto> error_obj)) (VObject 1)
      = Some (Normal False, getter_heap(3 \<mapsto> error_obj), [PropertyRead (VObject 1) ''then''])"
    using thrown2 by (simp add: isThenable_VObject)
  have throws': "\<forall>e g. GetV throwing_host getter_heap (VObject 1) ''then'' = Some (Throw e, g)
      \<longrightarrow> (\<exists>e' g'. GetV throwing_host (getter_heap(3 \<mapsto> error_obj)) (VObject 1) ''then''
            = Some (Throw e', g'))"
    using thrown2 by simp
  have returns': "\<forall>m g. GetV throwing_host getter_heap (VObject 1) ''then'' = Some (Normal m, g)
      \<longrightarrow> (\<exists>m' g'. GetV throwing_host (getter_heap(3 \<mapsto> error_obj)) (VObject 1) ''then''
            = Some (Normal m', g') \<and> typeof g' m' = typeof g m)"
    using thrown1 by simp
  have same': "Normal False = (Normal False :: bool completion)"
    by (rule isThenable_twice [OF first' second' throws' returns'])
  from first second first' second' same same' show ?thesis by simp
qed

text \<open>
  Without that agreement the two calls can differ: the getter that returns a function
  on its first run only gives \<^verbatim>\<open>true\<close>, then \<^verbatim>\<open>false\<close>.
\<close>

lemma isThenable_changing_getter:
  "isThenable changing_host getter_heap (VObject 1)
     = Some (Normal True, getter_heap(3 \<mapsto> fn_obj), [PropertyRead (VObject 1) ''then''])
   \<and> isThenable changing_host (getter_heap(3 \<mapsto> fn_obj)) (VObject 1)
     = Some (Normal False, getter_heap(3 \<mapsto> fn_obj), [PropertyRead (VObject 1) ''then''])"
  by (simp add: isThenable_VObject Get.simps Call_def getter_heap_def fn_obj_def changing_host_def)

text \<open>
  C8. The function changes nothing itself and keeps nothing. A call that returns has
  made no read, left the heap it started in and returned \<^verbatim>\<open>false\<close>; or it has made
  the one read of \<^verbatim>\<open>then\<close> on the value, left exactly the heap that this read left,
  and returned the boolean that classifies what the read returned. What it hands back is
  a boolean, and the heap, the only store there is, holds nothing the read did not put
  there. The read in turn changes the heap through the caller's code only: the one run
  of a getter on the value, or the one read on a live proxy.
\<close>

theorem isThenable_frame:
  assumes "isThenable host h v = Some (r, h', t)"
  shows "((t = [] \<and> h' = h \<and> r = Normal False)
          \<or> (t = [PropertyRead v ''then'']
              \<and> (\<exists>c. GetV host h v ''then'' = Some (c, h')
                    \<and> r = Normal (case c of Normal m \<Rightarrow> typeof h' m = ''function''
                                   | Throw e \<Rightarrow> False))))
         \<and> (h' = h
             \<or> (\<exists>f c. call_fn host f v [] h = Some (c, h'))
             \<or> (\<exists>p c. proxy_get host p ''then'' v h = Some (c, h')))
         \<and> (r = Normal True \<or> r = Normal False)"
proof (cases "\<exists>a. v = VObject a")
  case True
  then obtain a where v: "v = VObject a" ..
  from assms v obtain c where read: "Get host h a ''then'' (VObject a) = Some (c, h')"
    and t: "t = [PropertyRead v ''then'']"
    and r: "r = Normal (case c of Normal m \<Rightarrow> typeof h' m = ''function'' | Throw e \<Rightarrow> False)"
    by (auto simp: isThenable_VObject split: option.splits)
  from read v have getv: "GetV host h v ''then'' = Some (c, h')"
    by simp
  from Get_frame [OF read] v
  have host_only: "h' = h
      \<or> (\<exists>f c. call_fn host f v [] h = Some (c, h'))
      \<or> (\<exists>p c. proxy_get host p ''then'' v h = Some (c, h'))"
    by auto
  from r have bool: "r = Normal True \<or> r = Normal False"
    by (cases "case c of Normal m \<Rightarrow> typeof h' m = ''function'' | Throw e \<Rightarrow> False") simp_all
  from t getv r host_only bool show ?thesis by blast
next
  case False
  then have "isThenable host h v = Some (Normal False, h, [])"
    by (simp add: isThenable_not_object)
  with assms show ?thesis by simp
qed

text \<open>
  The getter that allocates: the heap after the call differs from the heap before, and
  it is the heap that the read of \<^verbatim>\<open>then\<close> left. The object whose \<^verbatim>\<open>then\<close> is a
  function that would empty it: the call reads the member, does not call it, and leaves
  the heap as it was. And \<^verbatim>\<open>null\<close>: no read at all.
\<close>

theorem isThenable_frame_witness:
  "isThenable changing_host getter_heap (VObject 1)
     = Some (Normal True, getter_heap(3 \<mapsto> fn_obj), [PropertyRead (VObject 1) ''then''])
   \<and> getter_heap(3 \<mapsto> fn_obj) \<noteq> getter_heap
   \<and> (\<exists>c. GetV changing_host getter_heap (VObject 1) ''then''
         = Some (c, getter_heap(3 \<mapsto> fn_obj)))
   \<and> isThenable emptying_host own_heap (VObject 1)
     = Some (Normal True, own_heap, [PropertyRead (VObject 1) ''then''])
   \<and> (\<exists>c. GetV emptying_host own_heap (VObject 1) ''then'' = Some (c, own_heap))
   \<and> call_fn emptying_host 2 (VObject 1) [] own_heap
     = Some (Normal VUndefined, own_heap(1 \<mapsto> Ordinary Map.empty None False None))
   \<and> own_heap(1 \<mapsto> Ordinary Map.empty None False None) \<noteq> own_heap
   \<and> isThenable emptying_host own_heap VNull = Some (Normal False, own_heap, [])"
proof -
  have call: "isThenable changing_host getter_heap (VObject 1)
      = Some (Normal True, getter_heap(3 \<mapsto> fn_obj), [PropertyRead (VObject 1) ''then''])"
    by (simp add: isThenable_VObject Get.simps Call_def getter_heap_def fn_obj_def
        changing_host_def)
  have "(getter_heap(3 \<mapsto> fn_obj)) 3 \<noteq> getter_heap 3"
    by (simp add: getter_heap_def)
  then have changed: "getter_heap(3 \<mapsto> fn_obj) \<noteq> getter_heap"
    by metis
  from isThenable_frame [OF call]
  have read: "\<exists>c. GetV changing_host getter_heap (VObject 1) ''then''
      = Some (c, getter_heap(3 \<mapsto> fn_obj))"
    by blast
  have call': "isThenable emptying_host own_heap (VObject 1)
      = Some (Normal True, own_heap, [PropertyRead (VObject 1) ''then''])"
    by (simp add: isThenable_VObject Get.simps own_heap_def fn_obj_def)
  from isThenable_frame [OF call']
  have read': "\<exists>c. GetV emptying_host own_heap (VObject 1) ''then'' = Some (c, own_heap)"
    by blast
  have would: "call_fn emptying_host 2 (VObject 1) [] own_heap
      = Some (Normal VUndefined, own_heap(1 \<mapsto> Ordinary Map.empty None False None))"
    by (simp add: emptying_host_def)
  have "map_option (\<lambda>ob. properties ob ''then'')
        ((own_heap(1 \<mapsto> Ordinary Map.empty None False None)) 1)
      \<noteq> map_option (\<lambda>ob. properties ob ''then'') (own_heap 1)"
    by (simp add: own_heap_def)
  then have emptied: "own_heap(1 \<mapsto> Ordinary Map.empty None False None) \<noteq> own_heap"
    by metis
  have null: "isThenable emptying_host own_heap VNull = Some (Normal False, own_heap, [])"
    by (simp add: isThenable_def)
  from call changed read call' read' would emptied null show ?thesis by blast
qed

text \<open>
  C9. An object that boxes a primitive and is not callable has the \<^verbatim>\<open>typeof\<close>
  \<^verbatim>\<open>'object'\<close>, so the guard for primitives lets it through: the call is the one
  read of \<^verbatim>\<open>then\<close>, classified, and it returns \<^verbatim>\<open>true\<close> when the read returns a
  member that is a function, as it does when the box has a function as its own data
  property \<^verbatim>\<open>then\<close>.
\<close>

theorem isThenable_boxed_primitive:
  assumes "h a = Some (Ordinary ps pr False (Some p))"
  shows "typeof h (VObject a) = ''object''
     \<and> isThenable host h (VObject a) =
         (case Get host h a ''then'' (VObject a) of
            None \<Rightarrow> None
          | Some (c, h') \<Rightarrow>
              Some (Normal (case c of Normal m \<Rightarrow> typeof h' m = ''function'' | Throw e \<Rightarrow> False),
                    h', [PropertyRead (VObject a) ''then'']))
     \<and> (\<forall>m h'. Get host h a ''then'' (VObject a) = Some (Normal m, h')
            \<and> typeof h' m = ''function''
          \<longrightarrow> isThenable host h (VObject a)
                = Some (Normal True, h', [PropertyRead (VObject a) ''then'']))
     \<and> (\<forall>m w e c. ps ''then'' = Some (DataProp m w e c) \<and> typeof h m = ''function''
          \<longrightarrow> isThenable host h (VObject a)
                = Some (Normal True, h, [PropertyRead (VObject a) ''then'']))"
proof (intro conjI allI impI)
  show "typeof h (VObject a) = ''object''"
    using assms by simp
next
  show "isThenable host h (VObject a) =
         (case Get host h a ''then'' (VObject a) of
            None \<Rightarrow> None
          | Some (c, h') \<Rightarrow>
              Some (Normal (case c of Normal m \<Rightarrow> typeof h' m = ''function'' | Throw e \<Rightarrow> False),
                    h', [PropertyRead (VObject a) ''then'']))"
    by (rule isThenable_VObject)
next
  fix m h'
  assume "Get host h a ''then'' (VObject a) = Some (Normal m, h') \<and> typeof h' m = ''function''"
  then show "isThenable host h (VObject a) = Some (Normal True, h', [PropertyRead (VObject a) ''then''])"
    by (simp add: isThenable_VObject)
next
  fix m w e c
  assume own: "ps ''then'' = Some (DataProp m w e c) \<and> typeof h m = ''function''"
  then have "ps ''then'' = Some (DataProp m w e c)" ..
  with assms have "Get host h a ''then'' (VObject a) = Some (Normal m, h)"
    by (rule Get_own_data)
  with own show "isThenable host h (VObject a) = Some (Normal True, h, [PropertyRead (VObject a) ''then''])"
    by (simp add: isThenable_VObject)
qed

text \<open>The wrapper of 42 with a function as its own \<^verbatim>\<open>then\<close>: \<^verbatim>\<open>true\<close>.\<close>

theorem isThenable_boxed_primitive_witness:
  "boxed_heap 1
     = Some (Ordinary [''then'' \<mapsto> DataProp (VObject 2) True True True] None False (Some forty_two))
   \<and> typeof boxed_heap (VObject 1) = ''object''
   \<and> isThenable silent_host boxed_heap (VObject 1)
     = Some (Normal True, boxed_heap, [PropertyRead (VObject 1) ''then''])"
proof -
  have box: "boxed_heap 1
      = Some (Ordinary [''then'' \<mapsto> DataProp (VObject 2) True True True] None False (Some forty_two))"
    by (simp add: boxed_heap_def)
  have own: "[''then'' \<mapsto> DataProp (VObject 2) True True True] ''then''
      = Some (DataProp (VObject 2) True True True)"
    by simp
  have fn: "typeof boxed_heap (VObject 2) = ''function''"
    by (simp add: boxed_heap_def fn_obj_def)
  from isThenable_boxed_primitive [where h = boxed_heap and a = 1 and host = silent_host, OF box]
    own fn box
  show ?thesis by blast
qed

text \<open>
  C10. The default export is the named export: both entry points return the same
  outcome for every input.
\<close>

theorem default_export_isThenable:
  "default_export host h v = isThenable host h v"
  by (simp add: default_export_def)

end
